theory Spec2Isabelle
  imports Main
begin

section \<open>Python values, dictionaries and exceptions\<close>

text \<open>
  The job-parameter mapping and the keyword arguments of the renderer hold dynamically
  typed Python values. The values the handler distinguishes are \<^verbatim>\<open>None\<close>, booleans,
  integers and strings. Floating-point values are not part of this model.
\<close>

datatype pyval = PNone | PBool bool | PInt int | PStr string

text \<open>The exceptions that the modelled code can raise.\<close>

datatype exn =
    RuntimeError string
  | TypeError
  | ZeroDivisionError
  | KeyError string
  | IndexError
  | PersistentDataclassError
  | OtherError string

datatype outcome = Returned | Raised exn

text \<open>
  The \<^verbatim>\<open>data\<close> argument is only read, so it is a finite map. \<^verbatim>\<open>data.get(k)\<close> yields
  \<^verbatim>\<open>None\<close> for an absent key, \<^verbatim>\<open>data.get(k, d)\<close> yields \<open>d\<close>.
\<close>

type_synonym pydict = "string \<rightharpoonup> pyval"

definition dict_get :: "pydict \<Rightarrow> string \<Rightarrow> pyval" where
  "dict_get data k = (case data k of None \<Rightarrow> PNone | Some v \<Rightarrow> v)"

definition dict_get_default :: "pydict \<Rightarrow> string \<Rightarrow> pyval \<Rightarrow> pyval" where
  "dict_get_default data k d = (case data k of None \<Rightarrow> d | Some v \<Rightarrow> v)"

text \<open>
  \<^verbatim>\<open>render_kwargs\<close> is written by the handler and handed to the renderer as keyword
  arguments, so it is an association list in insertion order: assigning to a key that
  is present replaces the value in place, assigning to a new key appends the entry.
\<close>

type_synonym kwargs = "(string \<times> pyval) list"

fun dict_set :: "'k \<Rightarrow> 'v \<Rightarrow> ('k \<times> 'v) list \<Rightarrow> ('k \<times> 'v) list" where
  "dict_set k v [] = [(k, v)]"
| "dict_set k v (p # ps) = (if fst p = k then (k, v) # ps else p # dict_set k v ps)"

definition dict_has :: "'k \<Rightarrow> ('k \<times> 'v) list \<Rightarrow> bool" where
  "dict_has k kw = (map_of kw k \<noteq> None)"

text \<open>\<^verbatim>\<open>isinstance(v, int)\<close>: \<^verbatim>\<open>bool\<close> is a subclass of \<^verbatim>\<open>int\<close> in Python.\<close>

fun isinstance_int :: "pyval \<Rightarrow> bool" where
  "isinstance_int (PInt n) = True"
| "isinstance_int (PBool b) = True"
| "isinstance_int PNone = False"
| "isinstance_int (PStr s) = False"

text \<open>The integer a value denotes in arithmetic, if it is an \<^verbatim>\<open>int\<close>.\<close>

fun as_int :: "pyval \<Rightarrow> int option" where
  "as_int (PInt n) = Some n"
| "as_int (PBool b) = Some (if b then 1 else 0)"
| "as_int PNone = None"
| "as_int (PStr s) = None"

text \<open>
  \<^verbatim>\<open>divmod(a, b)\<close> on integers is floor division with the remainder taking the sign
  of the divisor, which is what \<open>div\<close> and \<open>mod\<close> on \<open>int\<close> compute. A zero divisor
  raises \<^verbatim>\<open>ZeroDivisionError\<close>, an operand that is not an integer \<^verbatim>\<open>TypeError\<close>.
\<close>

definition py_divmod :: "pyval \<Rightarrow> pyval \<Rightarrow> exn + (int \<times> int)" where
  "py_divmod a b =
     (case as_int a of
        None \<Rightarrow> Inl TypeError
      | Some x \<Rightarrow>
          (case as_int b of
             None \<Rightarrow> Inl TypeError
           | Some y \<Rightarrow> if y = 0 then Inl ZeroDivisionError else Inr (x div y, x mod y)))"

text \<open>\<^verbatim>\<open>v < n\<close> for an integer literal \<open>n\<close>.\<close>

definition py_less_int :: "pyval \<Rightarrow> int \<Rightarrow> exn + bool" where
  "py_less_int v n = (case as_int v of None \<Rightarrow> Inl TypeError | Some x \<Rightarrow> Inr (x < n))"

text \<open>Decimal formatting of integers and the \<^verbatim>\<open>{v}\<close> of an f-string.\<close>

fun str_nat :: "nat \<Rightarrow> string" where
  "str_nat n =
     (if n < 10 then [''0123456789'' ! n]
      else str_nat (n div 10) @ [''0123456789'' ! (n mod 10)])"

declare str_nat.simps [simp del]

definition str_int :: "int \<Rightarrow> string" where
  "str_int i = (if i < 0 then CHR ''-'' # str_nat (nat (- i)) else str_nat (nat i))"

fun py_str :: "pyval \<Rightarrow> string" where
  "py_str PNone = ''None''"
| "py_str (PBool b) = (if b then ''True'' else ''False'')"
| "py_str (PInt n) = str_int n"
| "py_str (PStr s) = s"

section \<open>The host application\<close>

text \<open>
  The Maya session as the handler sees it: the node attributes (read with
  \<^verbatim>\<open>maya.cmds.getAttr\<close>, written with \<^verbatim>\<open>maya.cmds.setAttr\<close>), the commands that
  were called, in order, and the lines printed. The renderer itself is external: a call
  of \<^verbatim>\<open>maya.cmds.arnoldRender\<close> is recorded with its keyword arguments.
\<close>

datatype call = SetAttr string pyval | ArnoldRender kwargs

record maya =
  attrs :: "string \<Rightarrow> pyval"
  calls :: "call list"
  stdout :: "string list"

definition getAttr :: "maya \<Rightarrow> string \<Rightarrow> pyval" where
  "getAttr host name = attrs host name"

definition setAttr :: "string \<Rightarrow> pyval \<Rightarrow> maya \<Rightarrow> maya" where
  "setAttr name v host =
     host\<lparr>attrs := (attrs host)(name := v), calls := calls host @ [SetAttr name v]\<rparr>"

definition arnoldRender :: "kwargs \<Rightarrow> maya \<Rightarrow> maya" where
  "arnoldRender kw host = host\<lparr>calls := calls host @ [ArnoldRender kw]\<rparr>"

definition print :: "string \<Rightarrow> maya \<Rightarrow> maya" where
  "print s host = host\<lparr>stdout := stdout host @ [s]\<rparr>"

section \<open>The Arnold render handler\<close>

datatype action = Inherited_action string | Set_error_on_arnold_license_fail

record handler =
  action_dict :: "(string \<times> action) list"
  render_kwargs :: kwargs

text \<open>
  \<^verbatim>\<open>ArnoldHandler.__init__\<close>: the argument is the handler as \<^verbatim>\<open>DefaultMayaHandler.__init__\<close>
  leaves it; the base class is defined in \<^verbatim>\<open>default_maya_handler.py\<close>.
\<close>

definition init :: "handler \<Rightarrow> handler" where
  "init base =
     base\<lparr>action_dict :=
            dict_set ''error_on_arnold_license_fail'' Set_error_on_arnold_license_fail
              (action_dict base),
          render_kwargs := dict_set ''batch'' (PBool True) (render_kwargs base)\<rparr>"

text \<open>
  \<^verbatim>\<open>self.get_camera_to_render(data)\<close> is inherited from \<^verbatim>\<open>DefaultMayaHandler\<close>
  (\<^verbatim>\<open>default_maya_handler.py\<close>). It is a parameter of the model: a query of the
  handler, the session and the data that yields the camera, or the message of the
  \<^verbatim>\<open>RuntimeError\<close> that the docstring of \<^verbatim>\<open>start_render\<close> announces.
\<close>

type_synonym camera_query = "handler \<Rightarrow> maya \<Rightarrow> pydict \<Rightarrow> string + pyval"

text \<open>Lines 36 to 47: width and height default to the scene's resolution.\<close>

definition default_resolution :: "handler \<Rightarrow> maya \<Rightarrow> handler \<times> maya" where
  "default_resolution self host =
     (let (self1, host1) =
            (if \<not> dict_has ''width'' (render_kwargs self) then
               (let w = getAttr host ''defaultResolution.width'' in
                  (self\<lparr>render_kwargs := dict_set ''width'' w (render_kwargs self)\<rparr>,
                   print (''No width was specified, defaulting to '' @ py_str w) host))
             else (self, host))
      in
        if \<not> dict_has ''height'' (render_kwargs self1) then
          (let h = getAttr host1 ''defaultResolution.height'' in
             (self1\<lparr>render_kwargs := dict_set ''height'' h (render_kwargs self1)\<rparr>,
              print (''No height was specified, defaulting to '' @ py_str h) host1))
        else (self1, host1))"

text \<open>
  Lines 74 to 83: the border values of one tile, from the quotient and remainder of
  the width by \<open>numXTiles\<close> and of the height by \<open>numYTiles\<close>. The result is
  \<open>(minX, maxX, minY, maxY)\<close>.
\<close>

definition tile_borders ::
  "int \<times> int \<Rightarrow> int \<times> int \<Rightarrow> int \<Rightarrow> int \<Rightarrow> int \<Rightarrow> int \<Rightarrow> int \<times> int \<times> int \<times> int" where
  "tile_borders dmX dmY numXTiles numYTiles tileNumX tileNumY =
     (let (deltaX, widthRemainder) = dmX;
          (deltaY, heightRemainder) = dmY;
          minX = deltaX * (tileNumX - 1);
          maxX = (deltaX * tileNumX) - 1;
          minY = deltaY * (tileNumY - 1);
          maxY = (deltaY * tileNumY) - 1;
          maxX = (if tileNumX = numXTiles then maxX + widthRemainder else maxX);
          maxY = (if tileNumY = numYTiles then maxY + heightRemainder else maxY)
      in (minX, maxX, minY, maxY))"

text \<open>Lines 86 to 102: the region attributes and the file-name prefix of the tile.\<close>

definition tile_prefix :: "pyval \<Rightarrow> pyval \<Rightarrow> pyval \<Rightarrow> pyval \<Rightarrow> pyval \<Rightarrow> string" where
  "tile_prefix tileNumX tileNumY numXTiles numYTiles prefix =
     ''_tile_'' @ py_str tileNumY @ ''x'' @ py_str tileNumX @ ''_'' @ py_str numYTiles
       @ ''x'' @ py_str numXTiles @ ''_'' @ py_str prefix"

definition set_tile_attrs ::
  "int \<times> int \<times> int \<times> int \<Rightarrow> string \<Rightarrow> maya \<Rightarrow> maya" where
  "set_tile_attrs b name_prefix host =
     (let (minX, maxX, minY, maxY) = b;
          host1 = setAttr ''defaultArnoldRenderOptions.regionMinX'' (PInt minX) host;
          host2 = setAttr ''defaultArnoldRenderOptions.regionMaxX'' (PInt maxX) host1;
          host3 = setAttr ''defaultArnoldRenderOptions.regionMinY'' (PInt minY) host2;
          host4 = setAttr ''defaultArnoldRenderOptions.regionMaxY'' (PInt maxY) host3;
          host5 = print (''minX='' @ str_int minX @ '', maxX='' @ str_int maxX
                    @ '', minY='' @ str_int minY @ '', maxY='' @ str_int maxY) host4;
          host6 = setAttr ''defaultRenderGlobals.imageFilePrefix'' (PStr name_prefix) host5
      in print (''Output file name: ''
                  @ py_str (getAttr host6 ''defaultRenderGlobals.imageFilePrefix'')) host6)"

text \<open>
  Lines 49 to 102: the tile branch. It is entered when both tile counts are given; the
  four parameters are checked before anything is computed or written.
\<close>

definition tile_setup :: "handler \<Rightarrow> maya \<Rightarrow> pydict \<Rightarrow> outcome \<times> maya" where
  "tile_setup self host data =
     (let numXTiles = dict_get data ''numXTiles'';
          numYTiles = dict_get data ''numYTiles''
      in
        if numXTiles \<noteq> PNone \<and> numYTiles \<noteq> PNone then
          if \<not> isinstance_int numXTiles \<or> \<not> isinstance_int numYTiles then
            (Raised (RuntimeError
               ''numXTiles and numYTiles variables from run-data must be integers''), host)
          else
            (let tileNumX = dict_get data ''tileNumX'';
                 tileNumY = dict_get data ''tileNumY''
             in
               if \<not> isinstance_int tileNumX \<or> \<not> isinstance_int tileNumY then
                 (Raised (RuntimeError
                    ''tileNumX and tileNumY variables from run-data must be integers''), host)
               else
                 (case map_of (render_kwargs self) ''width'' of
                    None \<Rightarrow> (Raised (KeyError ''width''), host)
                  | Some width \<Rightarrow>
                 (case py_divmod width numXTiles of
                    Inl e \<Rightarrow> (Raised e, host)
                  | Inr dmX \<Rightarrow>
                 (case map_of (render_kwargs self) ''height'' of
                    None \<Rightarrow> (Raised (KeyError ''height''), host)
                  | Some height \<Rightarrow>
                 (case py_divmod height numYTiles of
                    Inl e \<Rightarrow> (Raised e, host)
                  | Inr dmY \<Rightarrow>
                 (case (as_int numXTiles, as_int numYTiles, as_int tileNumX, as_int tileNumY) of
                    (Some nx, Some ny, Some tx, Some ty) \<Rightarrow>
                      (Returned,
                       set_tile_attrs (tile_borders dmX dmY nx ny tx ty)
                         (tile_prefix tileNumX tileNumY numXTiles numYTiles
                            (dict_get data ''output_file_prefix''))
                         host)
                  | _ \<Rightarrow> (Raised TypeError, host)))))))
        else (Returned, host))"

text \<open>Lines 104 to 112: render type, log verbosity, the render call.\<close>

definition render_frame :: "handler \<Rightarrow> maya \<Rightarrow> pyval \<Rightarrow> outcome \<times> maya" where
  "render_frame self host frame =
     (let host1 = setAttr ''defaultArnoldRenderOptions.renderType'' (PInt 0) host in
        case py_less_int (getAttr host1 ''defaultArnoldRenderOptions.log_verbosity'') 2 of
          Inl e \<Rightarrow> (Raised e, host1)
        | Inr low \<Rightarrow>
            (let host2 = (if low
                          then setAttr ''defaultArnoldRenderOptions.log_verbosity'' (PInt 2) host1
                          else host1);
                 host3 = arnoldRender (render_kwargs self) host2
             in (Returned,
                 print (''MayaClient: Finished Rendering Frame '' @ py_str frame @ [CHR 0x0A])
                   host3)))"

text \<open>
  \<^verbatim>\<open>ArnoldHandler.start_render\<close>. The result is the outcome together with the handler
  and the session as they are when the method returns or raises.
\<close>

definition start_render ::
  "camera_query \<Rightarrow> handler \<Rightarrow> maya \<Rightarrow> pydict \<Rightarrow> outcome \<times> handler \<times> maya" where
  "start_render get_camera_to_render self host data =
     (let frame = dict_get data ''frame'' in
        if frame = PNone then
          (Raised (RuntimeError ''MayaClient: start_render called without a frame number.''),
           self, host)
        else
          (let self1 = self\<lparr>render_kwargs := dict_set ''seq'' frame (render_kwargs self)\<rparr> in
             case get_camera_to_render self1 host data of
               Inl msg \<Rightarrow> (Raised (RuntimeError msg), self1, host)
             | Inr camera \<Rightarrow>
                 (let self2 = self1\<lparr>render_kwargs :=
                                      dict_set ''camera'' camera (render_kwargs self1)\<rparr>;
                      (self3, host1) = default_resolution self2 host
                  in
                    case tile_setup self3 host1 data of
                      (Raised e, host2) \<Rightarrow> (Raised e, self3, host2)
                    | (Returned, host2) \<Rightarrow>
                        (let (out, host3) = render_frame self3 host2 frame
                         in (out, self3, host3)))))"

text \<open>\<^verbatim>\<open>ArnoldHandler.set_error_on_arnold_license_fail\<close>.\<close>

definition set_error_on_arnold_license_fail :: "maya \<Rightarrow> pydict \<Rightarrow> maya" where
  "set_error_on_arnold_license_fail host data =
     (let val = dict_get_default data ''error_on_arnold_license_fail'' (PBool True)
      in setAttr ''defaultArnoldRenderOptions.abortOnLicenseFail'' val host)"

text \<open>
  The borders that \<^verbatim>\<open>start_render\<close> computes for an image of width \<open>W\<close> and height \<open>H\<close>
  (\<^verbatim>\<open>divmod\<close> of the width and of the height by the tile counts), the pixels of an
  inclusive border range, and the two bounds of one axis.
\<close>

definition image_tile ::
  "int \<Rightarrow> int \<Rightarrow> int \<Rightarrow> int \<Rightarrow> int \<Rightarrow> int \<Rightarrow> int \<times> int \<times> int \<times> int" where
  "image_tile W H Nx Ny tx ty =
     tile_borders (W div Nx, W mod Nx) (H div Ny, H mod Ny) Nx Ny tx ty"

definition in_tile :: "int \<times> int \<times> int \<times> int \<Rightarrow> int \<times> int \<Rightarrow> bool" where
  "in_tile b p =
     (case b of (minX, maxX, minY, maxY) \<Rightarrow>
        minX \<le> fst p \<and> fst p \<le> maxX \<and> minY \<le> snd p \<and> snd p \<le> maxY)"

definition axis_lo :: "int \<Rightarrow> int \<Rightarrow> int \<Rightarrow> int" where
  "axis_lo W N t = (W div N) * (t - 1)"

definition axis_hi :: "int \<Rightarrow> int \<Rightarrow> int \<Rightarrow> int" where
  "axis_hi W N t = (W div N) * t - 1 + (if t = N then W mod N else 0)"

text \<open>
  The render region that a session's attributes describe: Maya uses inclusive ranges
  and 0 based indexing for coordinates (comment at line 72). The session that
  \<^verbatim>\<open>start_render\<close> leaves behind for the tile \<open>(tx, ty)\<close> of a job.
\<close>

definition in_region :: "maya \<Rightarrow> int \<times> int \<Rightarrow> bool" where
  "in_region host p =
     (case (as_int (getAttr host ''defaultArnoldRenderOptions.regionMinX''),
            as_int (getAttr host ''defaultArnoldRenderOptions.regionMaxX''),
            as_int (getAttr host ''defaultArnoldRenderOptions.regionMinY''),
            as_int (getAttr host ''defaultArnoldRenderOptions.regionMaxY'')) of
        (Some minX, Some maxX, Some minY, Some maxY) \<Rightarrow> in_tile (minX, maxX, minY, maxY) p
      | _ \<Rightarrow> False)"

abbreviation tile_session ::
  "camera_query \<Rightarrow> handler \<Rightarrow> maya \<Rightarrow> pydict \<Rightarrow> int \<Rightarrow> int \<Rightarrow> maya" where
  "tile_session get_camera_to_render self host data tx ty \<equiv>
     snd (snd (start_render get_camera_to_render self host
                 (data(''tileNumX'' \<mapsto> PInt tx, ''tileNumY'' \<mapsto> PInt ty))))"

section \<open>The submitter command\<close>

text \<open>
  \<^verbatim>\<open>DeadlineCloudSubmitterCmd.doIt\<close> talks to the Maya session, to Qt and to the
  submitter's own modules. What it reads is the state of the session, the names of the
  top-level widgets, the scene name and the outcome of \<^verbatim>\<open>RenderSubmitterSettings.load()\<close>;
  what it does is a sequence of calls, recorded in order.
\<close>

datatype maya_state = kInteractive | kBatch | kLibraryApp | kBaseUIMode

record widget =
  widget_id :: nat
  objectName :: string

datatype 'saved load_outcome = Load_returns "'saved option" | Load_raises exn

record 'saved session =
  mayaState :: maya_state
  topLevelWidgets :: "widget list"
  sceneName :: string
  load :: "'saved load_outcome"

text \<open>
  The settings classes (\<^verbatim>\<open>render_submitter_settings.py\<close>) enter through what \<^verbatim>\<open>doIt\<close>
  uses of them: the default \<^verbatim>\<open>RenderSubmitterUISettings()\<close>, its method
  \<^verbatim>\<open>apply_saved_settings\<close>, the truth value of a loaded settings object and the JSON
  text of \<^verbatim>\<open>dataclasses.asdict\<close>.
\<close>

record ('saved, 'ui) settings_api =
  default_ui_settings :: "'ui"
  apply_saved_settings :: "'ui \<Rightarrow> 'saved \<Rightarrow> 'ui"
  truthy :: "'saved \<Rightarrow> bool"
  dumps :: "'ui \<Rightarrow> string"

datatype 'ui event =
    Logger_info string
  | File_query_sceneName
  | ConfirmDialog string string string string
  | Settings_load
  | Traceback_print_exc exn
  | SetResult string
  | Show_maya_render_submitter widget "'ui"

text \<open>
  The body of the \<^verbatim>\<open>with gui_error_handler(...)\<close> block. An exception that leaves the
  body reaches the context manager, which belongs to the \<^verbatim>\<open>deadline.client.ui\<close> library.
\<close>

datatype cmd_outcome = Cmd_returned | Cmd_raised exn | Raised_in_gui_error_handler exn

definition submitter_body ::
  "('saved, 'ui) settings_api \<Rightarrow> 'saved session \<Rightarrow> widget \<Rightarrow> cmd_outcome \<times> 'ui event list" where
  "submitter_body api s mainwin =
     (let log1 = [Logger_info ''Opening Amazon Deadline Cloud Submitter'', File_query_sceneName];
          scene_name = sceneName s
      in
        if scene_name = [] then
          (Cmd_returned,
           log1 @ [ConfirmDialog ''Deadline Cloud Submitter''
                     ''The Maya Scene is not saved to disk. Please save it before opening the submitter dialog.''
                     ''OK'' ''OK''])
        else
          (case (case load s of
                   Load_returns r \<Rightarrow> Inr (r, log1 @ [Settings_load])
                 | Load_raises PersistentDataclassError \<Rightarrow>
                     Inr (None, log1 @ [Settings_load, Traceback_print_exc PersistentDataclassError])
                 | Load_raises e \<Rightarrow> Inl (e, log1 @ [Settings_load])) of
             Inl (e, log2) \<Rightarrow> (Raised_in_gui_error_handler e, log2)
           | Inr (maybe_rs_settings, log2) \<Rightarrow>
               (let rs_settings = default_ui_settings api;
                    rs_settings =
                      (case maybe_rs_settings of
                         None \<Rightarrow> rs_settings
                       | Some saved \<Rightarrow>
                           if truthy api saved then apply_saved_settings api rs_settings saved
                           else rs_settings)
                in (Cmd_returned,
                    log2 @ [SetResult (dumps api rs_settings),
                            Show_maya_render_submitter mainwin rs_settings]))))"

text \<open>\<^verbatim>\<open>DeadlineCloudSubmitterCmd.doIt\<close>.\<close>

definition doIt ::
  "('saved, 'ui) settings_api \<Rightarrow> 'saved session \<Rightarrow> cmd_outcome \<times> 'ui event list" where
  "doIt api s =
     (if mayaState s \<in> set [kInteractive, kBaseUIMode] then
        (case filter (\<lambda>widget. objectName widget = ''MayaWindow'') (topLevelWidgets s) of
           [] \<Rightarrow> (Cmd_raised IndexError, [])
         | mainwin # _ \<Rightarrow> submitter_body api s mainwin)
      else (Cmd_returned, []))"

section \<open>Example inputs\<close>

text \<open>
  A session with a resolution of 1920 by 1080 and every other attribute at 0, a handler
  fresh from \<^verbatim>\<open>__init__\<close>, a camera query that finds the camera \<^verbatim>\<open>persp\<close>, the
  data of one tile of a two by two tiling, and a command session with its settings
  interface. The concrete evaluations below run on them.
\<close>

abbreviation example_camera :: camera_query where
  "example_camera \<equiv> (\<lambda>self host data. Inr (PStr ''persp''))"

abbreviation example_handler :: handler where
  "example_handler \<equiv> init \<lparr>action_dict = [], render_kwargs = []\<rparr>"

abbreviation example_host :: maya where
  "example_host \<equiv>
     \<lparr>attrs = (\<lambda>name. PInt 0)
                (''defaultResolution.width'' := PInt 1920,
                 ''defaultResolution.height'' := PInt 1080),
      calls = [], stdout = []\<rparr>"


abbreviation example_first :: "outcome \<times> handler \<times> maya" where
  "example_first \<equiv>
     start_render example_camera example_handler example_host [''frame'' \<mapsto> PInt 1]"

abbreviation example_later_host :: maya where
  "example_later_host \<equiv>
     (snd (snd example_first))
       \<lparr>attrs := (attrs (snd (snd example_first)))(''defaultResolution.width'' := PInt 640)\<rparr>"

abbreviation example_api :: "(nat, nat) settings_api" where
  "example_api \<equiv>
     \<lparr>default_ui_settings = 0, apply_saved_settings = (\<lambda>ui saved. saved),
      truthy = (\<lambda>saved. True), dumps = (\<lambda>ui. ''{}'')\<rparr>"

abbreviation example_session :: "string \<Rightarrow> nat load_outcome \<Rightarrow> nat session" where
  "example_session scene l \<equiv>
     \<lparr>mayaState = kInteractive,
      topLevelWidgets = [\<lparr>widget_id = 0, objectName = ''MayaWindow''\<rparr>],
      sceneName = scene, load = l\<rparr>"

section \<open>Auxiliary facts\<close>

subsection \<open>Evaluation\<close>

lemmas eval_defs =
  start_render_def dict_get_def init_def default_resolution_def dict_has_def tile_setup_def
  Let_def getAttr_def setAttr_def print_def arnoldRender_def render_frame_def py_less_int_def
  py_divmod_def set_tile_attrs_def tile_borders_def tile_prefix_def


subsection \<open>Dictionaries\<close>

lemma map_of_dict_set:
  "map_of (dict_set k v kw) k' = (if k' = k then Some v else map_of kw k')"
  by (induction kw) auto

lemma dict_has_dict_set: "dict_has k' (dict_set k v kw) \<longleftrightarrow> k' = k \<or> dict_has k' kw"
  by (simp add: dict_has_def map_of_dict_set)

subsection \<open>The phases of \<^verbatim>\<open>start_render\<close>\<close>

lemma default_resolution_host:
  assumes "default_resolution self host = (self', host')"
  shows "attrs host' = attrs host" and "calls host' = calls host"
  using assms
  by (auto simp: default_resolution_def Let_def print_def split: if_splits prod.splits)

lemma default_resolution_kwargs:
  assumes "default_resolution self host = (self', host')"
  shows "map_of (render_kwargs self') k =
           (if (k = ''width'' \<or> k = ''height'') \<and> \<not> dict_has k (render_kwargs self)
            then Some (getAttr host (''defaultResolution.'' @ k))
            else map_of (render_kwargs self) k)"
  using assms
  by (auto simp: default_resolution_def Let_def print_def getAttr_def map_of_dict_set
        dict_has_dict_set split: if_splits prod.splits)

lemma tile_setup_raised:
  assumes "tile_setup self host data = (Raised e, host')"
  shows "host' = host"
  using assms
  by (auto simp: tile_setup_def Let_def split: if_splits option.splits sum.splits prod.splits)

lemma set_tile_attrs_attrs:
  "attrs (set_tile_attrs b p host) =
     (case b of (minX, maxX, minY, maxY) \<Rightarrow>
        (attrs host)
          (''defaultArnoldRenderOptions.regionMinX'' := PInt minX,
           ''defaultArnoldRenderOptions.regionMaxX'' := PInt maxX,
           ''defaultArnoldRenderOptions.regionMinY'' := PInt minY,
           ''defaultArnoldRenderOptions.regionMaxY'' := PInt maxY,
           ''defaultRenderGlobals.imageFilePrefix'' := PStr p))"
  by (simp add: set_tile_attrs_def Let_def setAttr_def print_def split: prod.splits)

lemma set_tile_attrs_calls:
  "calls (set_tile_attrs b p host) =
     (case b of (minX, maxX, minY, maxY) \<Rightarrow>
        calls host @
          [SetAttr ''defaultArnoldRenderOptions.regionMinX'' (PInt minX),
           SetAttr ''defaultArnoldRenderOptions.regionMaxX'' (PInt maxX),
           SetAttr ''defaultArnoldRenderOptions.regionMinY'' (PInt minY),
           SetAttr ''defaultArnoldRenderOptions.regionMaxY'' (PInt maxY),
           SetAttr ''defaultRenderGlobals.imageFilePrefix'' (PStr p)])"
  by (simp add: set_tile_attrs_def Let_def setAttr_def print_def split: prod.splits)

lemma tile_setup_no_tiles:
  assumes "dict_get data ''numXTiles'' = PNone \<or> dict_get data ''numYTiles'' = PNone"
  shows "tile_setup self host data = (Returned, host)"
  using assms by (auto simp: tile_setup_def Let_def)

lemma tile_setup_tiles_returned:
  assumes "tile_setup self host data = (Returned, host')"
    and "dict_get data ''numXTiles'' \<noteq> PNone" "dict_get data ''numYTiles'' \<noteq> PNone"
  shows "\<exists>b. host' =
                set_tile_attrs b
                  (tile_prefix (dict_get data ''tileNumX'') (dict_get data ''tileNumY'')
                     (dict_get data ''numXTiles'') (dict_get data ''numYTiles'')
                     (dict_get data ''output_file_prefix'')) host"
  using assms
  by (simp add: tile_setup_def Let_def del: split_paired_Ex
        split: if_splits option.splits sum.splits prod.splits) blast

lemma tile_setup_non_integer:
  assumes "dict_get data ''numXTiles'' \<noteq> PNone" "dict_get data ''numYTiles'' \<noteq> PNone"
    and "\<not> (isinstance_int (dict_get data ''numXTiles'') \<and> isinstance_int (dict_get data ''numYTiles'')
           \<and> isinstance_int (dict_get data ''tileNumX'') \<and> isinstance_int (dict_get data ''tileNumY''))"
  shows "\<exists>msg. tile_setup self host data = (Raised (RuntimeError msg), host)"
  proof (cases "isinstance_int (dict_get data ''numXTiles'') \<and> isinstance_int (dict_get data ''numYTiles'')")
  case False
  with assms(1,2) show ?thesis by (simp add: tile_setup_def)
next
  case True
  with assms have "\<not> isinstance_int (dict_get data ''tileNumX'') \<or> \<not> isinstance_int (dict_get data ''tileNumY'')"
    by blast
  with True assms(1,2) show ?thesis by (simp add: tile_setup_def)
qed

lemma tile_setup_attrs_other:
  assumes "tile_setup self host data = (out, host')"
    and "name \<notin> {''defaultArnoldRenderOptions.regionMinX'', ''defaultArnoldRenderOptions.regionMaxX'',
                  ''defaultArnoldRenderOptions.regionMinY'', ''defaultArnoldRenderOptions.regionMaxY'',
                  ''defaultRenderGlobals.imageFilePrefix''}"
  shows "attrs host' name = attrs host name"
proof (cases out)
  case (Raised e)
  with tile_setup_raised[of self host data e host'] assms show ?thesis by simp
next
  case Returned
  show ?thesis
  proof (cases "dict_get data ''numXTiles'' = PNone \<or> dict_get data ''numYTiles'' = PNone")
    case True
    from tile_setup_no_tiles[OF True, of self host] assms show ?thesis by simp
  next
    case False
    with tile_setup_tiles_returned[of self host data host'] assms Returned
    obtain b where "host' = set_tile_attrs b
                  (tile_prefix (dict_get data ''tileNumX'') (dict_get data ''tileNumY'')
                     (dict_get data ''numXTiles'') (dict_get data ''numYTiles'')
                     (dict_get data ''output_file_prefix'')) host" by blast
    then show ?thesis using assms(2) by (simp add: set_tile_attrs_attrs split: prod.splits)
  qed
qed

lemma tile_setup_image_tile:
  assumes "map_of (render_kwargs self) ''width'' = Some (PInt W)"
    and "map_of (render_kwargs self) ''height'' = Some (PInt H)"
    and "data ''numXTiles'' = Some (PInt Nx)" "data ''numYTiles'' = Some (PInt Ny)"
    and "data ''tileNumX'' = Some (PInt tx)" "data ''tileNumY'' = Some (PInt ty)"
    and "Nx \<noteq> 0" "Ny \<noteq> 0"
  shows "tile_setup self host data =
           (Returned,
            set_tile_attrs (image_tile W H Nx Ny tx ty)
              (tile_prefix (PInt tx) (PInt ty) (PInt Nx) (PInt Ny)
                 (dict_get data ''output_file_prefix'')) host)"
  using assms by (simp add: tile_setup_def dict_get_def py_divmod_def image_tile_def)

lemma render_frame_returned:
  assumes "render_frame self host frame = (Returned, host')"
  shows "\<exists>n. as_int (attrs host ''defaultArnoldRenderOptions.log_verbosity'') = Some n
           \<and> attrs host' ''defaultArnoldRenderOptions.log_verbosity''
               = (if n < 2 then PInt 2 else attrs host ''defaultArnoldRenderOptions.log_verbosity'')
           \<and> attrs host' ''defaultRenderGlobals.imageFilePrefix''
               = attrs host ''defaultRenderGlobals.imageFilePrefix''
           \<and> last (calls host') = ArnoldRender (render_kwargs self)
           \<and> set (calls host) \<subseteq> set (calls host')"
proof -
  define host1 where "host1 = setAttr ''defaultArnoldRenderOptions.renderType'' (PInt 0) host"
  have h1: "attrs host1 ''defaultArnoldRenderOptions.log_verbosity''
              = attrs host ''defaultArnoldRenderOptions.log_verbosity''"
    "attrs host1 ''defaultRenderGlobals.imageFilePrefix''
              = attrs host ''defaultRenderGlobals.imageFilePrefix''"
    "set (calls host) \<subseteq> set (calls host1)"
    by (auto simp: host1_def setAttr_def)
  obtain n where n: "as_int (attrs host1 ''defaultArnoldRenderOptions.log_verbosity'') = Some n"
    using assms
    by (cases "as_int (attrs host1 ''defaultArnoldRenderOptions.log_verbosity'')")
       (simp_all add: render_frame_def host1_def[symmetric] py_less_int_def getAttr_def)
  define host2 where
    "host2 = (if n < 2 then setAttr ''defaultArnoldRenderOptions.log_verbosity'' (PInt 2) host1
              else host1)"
  have h2: "attrs host2 ''defaultArnoldRenderOptions.log_verbosity''
              = (if n < 2 then PInt 2 else attrs host1 ''defaultArnoldRenderOptions.log_verbosity'')"
    "attrs host2 ''defaultRenderGlobals.imageFilePrefix''
              = attrs host1 ''defaultRenderGlobals.imageFilePrefix''"
    "set (calls host1) \<subseteq> set (calls host2)"
    by (auto simp: host2_def setAttr_def)
  have "host' = print (''MayaClient: Finished Rendering Frame '' @ py_str frame @ [CHR 0x0A])
                  (arnoldRender (render_kwargs self) host2)"
    using assms n
    by (simp add: render_frame_def host1_def[symmetric] py_less_int_def getAttr_def
          host2_def Let_def)
  then have h3: "attrs host' = attrs host2" "calls host' = calls host2 @ [ArnoldRender (render_kwargs self)]"
    by (simp_all add: print_def arnoldRender_def)
  show ?thesis using n h1 h2 h3 by auto
qed


lemma start_render_unfold:
  assumes "dict_get data ''frame'' \<noteq> PNone"
    and "get_camera_to_render
           (self\<lparr>render_kwargs := dict_set ''seq'' (dict_get data ''frame'') (render_kwargs self)\<rparr>)
           host data = Inr camera"
    and "default_resolution
           (self\<lparr>render_kwargs :=
                   dict_set ''camera'' camera
                     (dict_set ''seq'' (dict_get data ''frame'') (render_kwargs self))\<rparr>)
           host = (self3, host1)"
  shows "start_render get_camera_to_render self host data =
           (case tile_setup self3 host1 data of
              (Raised e, host2) \<Rightarrow> (Raised e, self3, host2)
            | (Returned, host2) \<Rightarrow>
                (case render_frame self3 host2 (dict_get data ''frame'') of
                   (out, host3) \<Rightarrow> (out, self3, host3)))"
  using assms by (simp add: start_render_def Let_def split: prod.splits outcome.splits)

lemma start_render_camera_fails:
  assumes "dict_get data ''frame'' \<noteq> PNone"
    and "get_camera_to_render
           (self\<lparr>render_kwargs := dict_set ''seq'' (dict_get data ''frame'') (render_kwargs self)\<rparr>)
           host data = Inl msg"
  shows "start_render get_camera_to_render self host data =
           (Raised (RuntimeError msg),
            self\<lparr>render_kwargs := dict_set ''seq'' (dict_get data ''frame'') (render_kwargs self)\<rparr>,
            host)"
  using assms by (simp add: start_render_def Let_def)

lemma start_render_returned:
  assumes "start_render get_camera_to_render self host data = (Returned, self', host')"
  obtains camera host1 host2 where
    "dict_get data ''frame'' \<noteq> PNone"
    "default_resolution
       (self\<lparr>render_kwargs :=
               dict_set ''camera'' camera
                 (dict_set ''seq'' (dict_get data ''frame'') (render_kwargs self))\<rparr>)
       host = (self', host1)"
    "tile_setup self' host1 data = (Returned, host2)"
    "render_frame self' host2 (dict_get data ''frame'') = (Returned, host')"
proof -
  have frame: "dict_get data ''frame'' \<noteq> PNone"
    using assms by (auto simp: start_render_def)
  define self1 where
    "self1 = self\<lparr>render_kwargs := dict_set ''seq'' (dict_get data ''frame'') (render_kwargs self)\<rparr>"
  obtain camera where cam: "get_camera_to_render self1 host data = Inr camera"
    using assms frame
    by (cases "get_camera_to_render self1 host data")
       (simp_all add: start_render_def self1_def Let_def)
  obtain self3 host1 where dr: "default_resolution
           (self\<lparr>render_kwargs :=
                   dict_set ''camera'' camera
                     (dict_set ''seq'' (dict_get data ''frame'') (render_kwargs self))\<rparr>)
           host = (self3, host1)"
    by (cases "default_resolution
           (self\<lparr>render_kwargs :=
                   dict_set ''camera'' camera
                     (dict_set ''seq'' (dict_get data ''frame'') (render_kwargs self))\<rparr>)
           host")
  note u = start_render_unfold[where get_camera_to_render = get_camera_to_render and self = self,
      OF frame cam[unfolded self1_def] dr]
  obtain o2 host2 where ts: "tile_setup self3 host1 data = (o2, host2)"
    by (cases "tile_setup self3 host1 data")
  have o2: "o2 = Returned" using assms u ts by (cases o2) simp_all
  obtain o3 host3 where rf: "render_frame self3 host2 (dict_get data ''frame'') = (o3, host3)"
    by (cases "render_frame self3 host2 (dict_get data ''frame'')")
  have "self' = self3" "o3 = Returned" "host3 = host'"
    using assms u ts o2 rf by simp_all
  with that[OF frame] dr ts o2 rf show ?thesis by simp
qed

lemma start_render_keeps_entries:
  assumes sr: "start_render get_camera_to_render self host data = (out, self', host')"
    and kv: "map_of (render_kwargs self) k = Some v"
    and k: "k \<noteq> ''seq''" "k \<noteq> ''camera''"
  shows "map_of (render_kwargs self') k = Some v"
proof (cases "dict_get data ''frame'' = PNone")
  case True
  with sr kv show ?thesis by (simp add: start_render_def)
next
  case frame: False
  define self1 where
    "self1 = self\<lparr>render_kwargs := dict_set ''seq'' (dict_get data ''frame'') (render_kwargs self)\<rparr>"
  show ?thesis
  proof (cases "get_camera_to_render self1 host data")
    case (Inl msg)
    from start_render_camera_fails[where get_camera_to_render = get_camera_to_render
        and self = self, OF frame Inl[unfolded self1_def]] sr kv k
    show ?thesis by (auto simp: map_of_dict_set)
  next
    case (Inr camera)
    define self2 where "self2 = self\<lparr>render_kwargs :=
                   dict_set ''camera'' camera
                     (dict_set ''seq'' (dict_get data ''frame'') (render_kwargs self))\<rparr>"
    obtain self3 host1 where dr: "default_resolution self2 host = (self3, host1)"
      by (cases "default_resolution self2 host")
    have kv2: "map_of (render_kwargs self2) k = Some v"
      using kv k by (simp add: self2_def map_of_dict_set)
    then have "dict_has k (render_kwargs self2)" by (simp add: dict_has_def)
    with default_resolution_kwargs[OF dr, of k] kv2
    have kv3: "map_of (render_kwargs self3) k = Some v" by simp
    have "self' = self3"
      using start_render_unfold[where get_camera_to_render = get_camera_to_render
          and self = self, OF frame Inr[unfolded self1_def] dr[unfolded self2_def]] sr
      by (auto split: prod.splits outcome.splits)
    with kv3 show ?thesis by simp
  qed
qed

lemma start_render_returned_resolution:
  assumes sr: "start_render get_camera_to_render self host data = (Returned, self', host')"
    and k: "k = ''width'' \<or> k = ''height''"
  shows "\<exists>v. map_of (render_kwargs self') k = Some v"
proof -
  from sr obtain camera host1 where dr: "default_resolution
       (self\<lparr>render_kwargs :=
               dict_set ''camera'' camera
                 (dict_set ''seq'' (dict_get data ''frame'') (render_kwargs self))\<rparr>)
       host = (self', host1)"
    by (rule start_render_returned)
  from default_resolution_kwargs[OF dr, of k] k show ?thesis
    by (auto simp: dict_has_def split: if_splits)
qed

subsection \<open>One axis of the tiling\<close>

lemma axis_exists:
  assumes "0 \<le> W" "1 \<le> N" "0 \<le> x" "x < W"
  shows "\<exists>t. 1 \<le> t \<and> t \<le> N \<and> axis_lo W N t \<le> x \<and> x \<le> axis_hi W N t"
proof (cases "(W div N) * (N - 1) \<le> x")
  case True
  have e: "(W div N) * N + W mod N = W" by simp
  have "axis_hi W N N = (W div N) * N - 1 + W mod N" by (simp add: axis_hi_def)
  with e have "x \<le> axis_hi W N N" using assms by linarith
  with True assms show ?thesis unfolding axis_lo_def by blast
next
  case False
  define d where "d = W div N"
  have dpos: "0 < d"
  proof (rule ccontr)
    assume "\<not> 0 < d"
    moreover have "0 \<le> d" using assms by (simp add: d_def pos_imp_zdiv_nonneg_iff)
    ultimately have "d = 0" by simp
    with False assms show False by (simp add: d_def)
  qed
  define t where "t = x div d + 1"
  have xe: "d * (x div d) + x mod d = x" by simp
  have xm: "0 \<le> x mod d" "x mod d < d" using dpos by simp_all
  have x1: "d * (x div d) \<le> x" using xe xm by linarith
  have x2: "x < d * (x div d) + d" using xe xm by linarith
  have "x < d * (N - 1)" using False by (simp add: d_def)
  moreover have "d * (N - 1) \<le> d * (x div d)" if "N - 1 \<le> x div d"
    using that dpos by (intro mult_left_mono) simp_all
  ultimately have "x div d < N - 1" using x1 by fastforce
  then have tN: "t < N" by (simp add: t_def)
  have t1: "1 \<le> t" using assms dpos by (simp add: t_def pos_imp_zdiv_nonneg_iff)
  have "axis_lo W N t \<le> x" using x1 by (simp add: axis_lo_def t_def d_def)
  moreover have "x \<le> axis_hi W N t" using x2 tN by (simp add: axis_hi_def t_def d_def algebra_simps)
  ultimately show ?thesis using t1 tN by (intro exI[of _ t]) simp
qed

lemma axis_disjoint:
  assumes "0 \<le> W" "1 \<le> N" "1 \<le> s" "s < t" "t \<le> N" "x \<le> axis_hi W N s"
  shows "x < axis_lo W N t"
proof -
  have d0: "0 \<le> W div N" using assms by (simp add: pos_imp_zdiv_nonneg_iff)
  have "s \<le> t - 1" using assms by simp
  then have "(W div N) * s \<le> (W div N) * (t - 1)" using d0 by (rule mult_left_mono)
  moreover have "axis_hi W N s = (W div N) * s - 1" using assms by (simp add: axis_hi_def)
  ultimately show ?thesis using assms by (simp add: axis_lo_def)
qed

lemma axis_unique:
  assumes "0 \<le> W" "1 \<le> N" "1 \<le> s" "s \<le> N" "1 \<le> t" "t \<le> N"
    "axis_lo W N s \<le> x" "x \<le> axis_hi W N s" "axis_lo W N t \<le> x" "x \<le> axis_hi W N t"
  shows "s = t"
proof (rule ccontr)
  assume "s \<noteq> t"
  then consider "s < t" | "t < s" by linarith
  then show False
  proof cases
    case 1 from axis_disjoint[OF assms(1,2,3) 1 assms(6,8)] assms(9) show False by simp
  next
    case 2 from axis_disjoint[OF assms(1,2,5) 2 assms(4,10)] assms(7) show False by simp
  qed
qed

lemma axis_range:
  assumes "0 \<le> W" "1 \<le> N" "1 \<le> t" "t \<le> N" "axis_lo W N t \<le> x" "x \<le> axis_hi W N t"
  shows "0 \<le> x \<and> x < W"
proof -
  have d0: "0 \<le> W div N" using assms by (simp add: pos_imp_zdiv_nonneg_iff)
  have "0 \<le> axis_lo W N t" using d0 assms by (simp add: axis_lo_def)
  moreover have "axis_hi W N t < W"
  proof (cases "t = N")
    case True
    have e: "(W div N) * N + W mod N = W" by simp
    have "axis_hi W N t = (W div N) * N - 1 + W mod N" using True by (simp add: axis_hi_def)
    with e show ?thesis by linarith
  next
    case False
    then have "t \<le> N" using assms by simp
    then have "(W div N) * t \<le> (W div N) * N" using d0 by (rule mult_left_mono)
    moreover have "(W div N) * N + W mod N = W" by simp
    moreover have "0 \<le> W mod N" using assms by simp
    moreover have "axis_hi W N t = (W div N) * t - 1" using False by (simp add: axis_hi_def)
    ultimately show ?thesis by linarith
  qed
  ultimately show ?thesis using assms by linarith
qed

lemma axis_remainder:
  assumes "0 \<le> W" "1 \<le> N" "1 \<le> t" "t \<le> N" "x \<le> axis_hi W N t" "(W div N) * N \<le> x"
  shows "t = N"
proof (rule ccontr)
  assume ne: "t \<noteq> N"
  have d0: "0 \<le> W div N" using assms by (simp add: pos_imp_zdiv_nonneg_iff)
  have "(W div N) * t \<le> (W div N) * N" using assms(4) d0 by (rule mult_left_mono)
  moreover have "axis_hi W N t = (W div N) * t - 1" using ne by (simp add: axis_hi_def)
  ultimately show False using assms by linarith
qed

lemma image_tile_axes:
  "image_tile W H Nx Ny tx ty =
     (axis_lo W Nx tx, axis_hi W Nx tx, axis_lo H Ny ty, axis_hi H Ny ty)"
  by (simp add: image_tile_def tile_borders_def axis_lo_def axis_hi_def)

lemma in_image_tile:
  "in_tile (image_tile W H Nx Ny tx ty) (x, y) \<longleftrightarrow>
     axis_lo W Nx tx \<le> x \<and> x \<le> axis_hi W Nx tx \<and> axis_lo H Ny ty \<le> y \<and> y \<le> axis_hi H Ny ty"
  by (simp add: image_tile_axes in_tile_def)

lemma image_tile_partition:
  assumes "0 \<le> W" "0 \<le> H" "1 \<le> Nx" "1 \<le> Ny"
  shows "(\<forall>x y. 0 \<le> x \<and> x < W \<and> 0 \<le> y \<and> y < H \<longrightarrow>
            (\<exists>!t. t \<in> {1..Nx} \<times> {1..Ny} \<and>
                  in_tile (image_tile W H Nx Ny (fst t) (snd t)) (x, y)))
       \<and> (\<forall>tx ty x y. tx \<in> {1..Nx} \<and> ty \<in> {1..Ny} \<and>
              in_tile (image_tile W H Nx Ny tx ty) (x, y) \<longrightarrow>
            0 \<le> x \<and> x < W \<and> 0 \<le> y \<and> y < H
            \<and> ((W div Nx) * Nx \<le> x \<longrightarrow> tx = Nx)
            \<and> ((H div Ny) * Ny \<le> y \<longrightarrow> ty = Ny))"
proof (intro conjI allI impI)
  fix x y
  assume xy: "0 \<le> x \<and> x < W \<and> 0 \<le> y \<and> y < H"
  from axis_exists[of W Nx x] assms xy obtain tx where
    tx: "1 \<le> tx" "tx \<le> Nx" "axis_lo W Nx tx \<le> x" "x \<le> axis_hi W Nx tx" by blast
  from axis_exists[of H Ny y] assms xy obtain ty where
    ty: "1 \<le> ty" "ty \<le> Ny" "axis_lo H Ny ty \<le> y" "y \<le> axis_hi H Ny ty" by blast
  show "\<exists>!t. t \<in> {1..Nx} \<times> {1..Ny} \<and> in_tile (image_tile W H Nx Ny (fst t) (snd t)) (x, y)"
  proof (rule ex1I[of _ "(tx, ty)"])
    show "(tx, ty) \<in> {1..Nx} \<times> {1..Ny} \<and>
      in_tile (image_tile W H Nx Ny (fst (tx, ty)) (snd (tx, ty))) (x, y)"
      using tx ty by (simp add: in_image_tile)
  next
    fix t
    assume t: "t \<in> {1..Nx} \<times> {1..Ny} \<and> in_tile (image_tile W H Nx Ny (fst t) (snd t)) (x, y)"
    obtain sx sy where ts: "t = (sx, sy)" by (cases t)
    from t ts have s: "1 \<le> sx" "sx \<le> Nx" "1 \<le> sy" "sy \<le> Ny"
      "axis_lo W Nx sx \<le> x" "x \<le> axis_hi W Nx sx" "axis_lo H Ny sy \<le> y" "y \<le> axis_hi H Ny sy"
      by (simp_all add: in_image_tile)
    have "sx = tx"
      using axis_unique[OF assms(1,3) s(1,2) tx(1,2) s(5,6) tx(3,4)] .
    moreover have "sy = ty"
      using axis_unique[OF assms(2,4) s(3,4) ty(1,2) s(7,8) ty(3,4)] .
    ultimately show "t = (tx, ty)" using ts by simp
  qed
next
  fix tx ty x y
  assume a: "tx \<in> {1..Nx} \<and> ty \<in> {1..Ny} \<and> in_tile (image_tile W H Nx Ny tx ty) (x, y)"
  then have s: "1 \<le> tx" "tx \<le> Nx" "1 \<le> ty" "ty \<le> Ny"
      "axis_lo W Nx tx \<le> x" "x \<le> axis_hi W Nx tx" "axis_lo H Ny ty \<le> y" "y \<le> axis_hi H Ny ty"
    by (simp_all add: in_image_tile)
  from axis_range[OF assms(1,3) s(1,2,5,6)] show "0 \<le> x" "x < W" by simp_all
  from axis_range[OF assms(2,4) s(3,4,7,8)] show "0 \<le> y" "y < H" by simp_all
  show "tx = Nx" if "(W div Nx) * Nx \<le> x"
    using axis_remainder[OF assms(1,3) s(1,2,6) that] .
  show "ty = Ny" if "(H div Ny) * Ny \<le> y"
    using axis_remainder[OF assms(2,4) s(3,4,8) that] .
qed

subsection \<open>The region attributes after \<^verbatim>\<open>start_render\<close>\<close>

lemma render_frame_attrs_other:
  assumes "render_frame self host frame = (out, host')"
    and "name \<noteq> ''defaultArnoldRenderOptions.renderType''"
    and "name \<noteq> ''defaultArnoldRenderOptions.log_verbosity''"
  shows "attrs host' name = attrs host name"
proof -
  define host1 where "host1 = setAttr ''defaultArnoldRenderOptions.renderType'' (PInt 0) host"
  have h1: "attrs host1 name = attrs host name"
    using assms(2) by (simp add: host1_def setAttr_def)
  show ?thesis
  proof (cases "as_int (attrs host1 ''defaultArnoldRenderOptions.log_verbosity'')")
    case None
    then have "host' = host1"
      using assms(1)
      by (simp add: render_frame_def host1_def[symmetric] py_less_int_def getAttr_def)
    with h1 show ?thesis by simp
  next
    case (Some n)
    define host2 where
      "host2 = (if n < 2 then setAttr ''defaultArnoldRenderOptions.log_verbosity'' (PInt 2) host1
                else host1)"
    have h2: "attrs host2 name = attrs host1 name"
      using assms(3) by (simp add: host2_def setAttr_def)
    have "host' = print (''MayaClient: Finished Rendering Frame '' @ py_str frame @ [CHR 0x0A])
                    (arnoldRender (render_kwargs self) host2)"
      using assms(1) Some
      by (simp add: render_frame_def host1_def[symmetric] py_less_int_def getAttr_def
            host2_def Let_def)
    then have "attrs host' = attrs host2" by (simp add: print_def arnoldRender_def)
    with h1 h2 show ?thesis by simp
  qed
qed

lemma start_render_region:
  assumes frame: "dict_get data ''frame'' \<noteq> PNone"
    and cam: "\<And>s d. \<exists>c. get_camera_to_render s host d = Inr c"
    and width: "(case map_of (render_kwargs self) ''width'' of
                   None \<Rightarrow> getAttr host ''defaultResolution.width'' | Some v \<Rightarrow> v) = PInt W"
    and height: "(case map_of (render_kwargs self) ''height'' of
                   None \<Rightarrow> getAttr host ''defaultResolution.height'' | Some v \<Rightarrow> v) = PInt H"
    and counts: "data ''numXTiles'' = Some (PInt Nx)" "data ''numYTiles'' = Some (PInt Ny)"
    and nz: "Nx \<noteq> 0" "Ny \<noteq> 0"
    and tile: "data ''tileNumX'' = Some (PInt tx)" "data ''tileNumY'' = Some (PInt ty)"
    and sr: "start_render get_camera_to_render self host data = (out, self', host')"
  shows "(getAttr host' ''defaultArnoldRenderOptions.regionMinX'',
          getAttr host' ''defaultArnoldRenderOptions.regionMaxX'',
          getAttr host' ''defaultArnoldRenderOptions.regionMinY'',
          getAttr host' ''defaultArnoldRenderOptions.regionMaxY'')
         = (PInt (axis_lo W Nx tx), PInt (axis_hi W Nx tx),
            PInt (axis_lo H Ny ty), PInt (axis_hi H Ny ty))"
proof -
  define self1 where
    "self1 = self\<lparr>render_kwargs := dict_set ''seq'' (dict_get data ''frame'') (render_kwargs self)\<rparr>"
  from cam obtain camera where c: "get_camera_to_render self1 host data = Inr camera" by blast
  define self2 where "self2 = self\<lparr>render_kwargs :=
                   dict_set ''camera'' camera
                     (dict_set ''seq'' (dict_get data ''frame'') (render_kwargs self))\<rparr>"
  obtain self3 host1 where dr: "default_resolution self2 host = (self3, host1)"
    by (cases "default_resolution self2 host")
  have m2: "map_of (render_kwargs self2) ''width'' = map_of (render_kwargs self) ''width''"
    "map_of (render_kwargs self2) ''height'' = map_of (render_kwargs self) ''height''"
    by (simp_all add: self2_def map_of_dict_set)
  have w3: "map_of (render_kwargs self3) ''width'' = Some (PInt W)"
    using default_resolution_kwargs[OF dr, of "''width''"] width m2
    by (auto simp: dict_has_def split: option.splits)
  have h3: "map_of (render_kwargs self3) ''height'' = Some (PInt H)"
    using default_resolution_kwargs[OF dr, of "''height''"] height m2
    by (auto simp: dict_has_def split: option.splits)
  note ts = tile_setup_image_tile[OF w3 h3 counts tile nz, of host1]
  obtain o3 host3 where
    rf: "render_frame self3
           (set_tile_attrs (image_tile W H Nx Ny tx ty)
              (tile_prefix (PInt tx) (PInt ty) (PInt Nx) (PInt Ny)
                 (dict_get data ''output_file_prefix'')) host1)
           (dict_get data ''frame'') = (o3, host3)"
    by (cases "render_frame self3
           (set_tile_attrs (image_tile W H Nx Ny tx ty)
              (tile_prefix (PInt tx) (PInt ty) (PInt Nx) (PInt Ny)
                 (dict_get data ''output_file_prefix'')) host1)
           (dict_get data ''frame'')")
  have "host' = host3"
    using start_render_unfold[where get_camera_to_render = get_camera_to_render
          and self = self, OF frame c[unfolded self1_def] dr[unfolded self2_def]] ts rf sr
    by simp
  moreover have "attrs host3 name =
      attrs (set_tile_attrs (image_tile W H Nx Ny tx ty)
              (tile_prefix (PInt tx) (PInt ty) (PInt Nx) (PInt Ny)
                 (dict_get data ''output_file_prefix'')) host1) name"
    if "name \<noteq> ''defaultArnoldRenderOptions.renderType''"
       "name \<noteq> ''defaultArnoldRenderOptions.log_verbosity''" for name
    using render_frame_attrs_other[OF rf that] .
  ultimately show ?thesis
    by (simp add: getAttr_def set_tile_attrs_attrs image_tile_axes)
qed

lemma tile_session_region:
  assumes frame: "dict_get data ''frame'' \<noteq> PNone"
    and cam: "\<And>s d. \<exists>c. get_camera_to_render s host d = Inr c"
    and width: "(case map_of (render_kwargs self) ''width'' of
                   None \<Rightarrow> getAttr host ''defaultResolution.width'' | Some v \<Rightarrow> v) = PInt W"
    and height: "(case map_of (render_kwargs self) ''height'' of
                   None \<Rightarrow> getAttr host ''defaultResolution.height'' | Some v \<Rightarrow> v) = PInt H"
    and counts: "data ''numXTiles'' = Some (PInt Nx)" "data ''numYTiles'' = Some (PInt Ny)"
    and nz: "Nx \<noteq> 0" "Ny \<noteq> 0"
  shows "(getAttr (tile_session get_camera_to_render self host data tx ty)
            ''defaultArnoldRenderOptions.regionMinX'',
          getAttr (tile_session get_camera_to_render self host data tx ty)
            ''defaultArnoldRenderOptions.regionMaxX'',
          getAttr (tile_session get_camera_to_render self host data tx ty)
            ''defaultArnoldRenderOptions.regionMinY'',
          getAttr (tile_session get_camera_to_render self host data tx ty)
            ''defaultArnoldRenderOptions.regionMaxY'')
         = (PInt (axis_lo W Nx tx), PInt (axis_hi W Nx tx),
            PInt (axis_lo H Ny ty), PInt (axis_hi H Ny ty))"
proof -
  let ?d = "data(''tileNumX'' \<mapsto> PInt tx, ''tileNumY'' \<mapsto> PInt ty)"
  obtain out self' host' where
    sr: "start_render get_camera_to_render self host ?d = (out, self', host')"
    by (cases "start_render get_camera_to_render self host ?d")
  have f: "dict_get ?d ''frame'' \<noteq> PNone" using frame by (simp add: dict_get_def)
  have c: "?d ''numXTiles'' = Some (PInt Nx)" "?d ''numYTiles'' = Some (PInt Ny)"
    using counts by simp_all
  have t: "?d ''tileNumX'' = Some (PInt tx)" "?d ''tileNumY'' = Some (PInt ty)" by simp_all
  from start_render_region[where get_camera_to_render = get_camera_to_render,
      OF f cam width height c nz t sr] sr
  show ?thesis by simp
qed

lemma in_region_tile_session:
  assumes frame: "dict_get data ''frame'' \<noteq> PNone"
    and cam: "\<And>s d. \<exists>c. get_camera_to_render s host d = Inr c"
    and width: "(case map_of (render_kwargs self) ''width'' of
                   None \<Rightarrow> getAttr host ''defaultResolution.width'' | Some v \<Rightarrow> v) = PInt W"
    and height: "(case map_of (render_kwargs self) ''height'' of
                   None \<Rightarrow> getAttr host ''defaultResolution.height'' | Some v \<Rightarrow> v) = PInt H"
    and counts: "data ''numXTiles'' = Some (PInt Nx)" "data ''numYTiles'' = Some (PInt Ny)"
    and nz: "Nx \<noteq> 0" "Ny \<noteq> 0"
  shows "in_region (tile_session get_camera_to_render self host data tx ty) p
           \<longleftrightarrow> in_tile (image_tile W H Nx Ny tx ty) p"
  using tile_session_region[where get_camera_to_render = get_camera_to_render,
      OF frame cam width height counts nz, of tx ty]
  by (simp add: in_region_def image_tile_axes)

section \<open>The tile borders partition the image\<close>

text \<open>
  C1. Take a job with a frame number and tile counts \<open>Nx, Ny \<ge> 1\<close>, on a handler and a
  session where the width resolves to \<open>W \<ge> 0\<close> and the height to \<open>H \<ge> 0\<close> (the entry of
  \<^verbatim>\<open>render_kwargs\<close>, or the scene's resolution when there is none). For every tile
  \<open>(tx, ty)\<close>, \<^verbatim>\<open>start_render\<close> leaves the region attributes at
  \<open>minX = (W div Nx) * (tx - 1)\<close> and \<open>maxX = (W div Nx) * tx - 1\<close>, plus \<open>W mod Nx\<close> when
  \<open>tx = Nx\<close>, and symmetrically for Y. Over the tiles \<open>[1, Nx] \<times> [1, Ny]\<close> these inclusive
  regions partition \<open>[0, W) \<times> [0, H)\<close>: every pixel of the image lies in the region of
  exactly one tile, every pixel of a tile's region lies in the image, and the pixels beyond
  \<open>(W div Nx) * Nx\<close> and \<open>(H div Ny) * Ny\<close>, the remainder, belong to the last column and
  the last row.
\<close>

theorem start_render_tiles_partition:
  assumes size: "0 \<le> W" "0 \<le> H" "1 \<le> Nx" "1 \<le> Ny"
    and frame: "dict_get data ''frame'' \<noteq> PNone"
    and cam: "\<And>s d. \<exists>c. get_camera_to_render s host d = Inr c"
    and width: "(case map_of (render_kwargs self) ''width'' of
                   None \<Rightarrow> getAttr host ''defaultResolution.width'' | Some v \<Rightarrow> v) = PInt W"
    and height: "(case map_of (render_kwargs self) ''height'' of
                   None \<Rightarrow> getAttr host ''defaultResolution.height'' | Some v \<Rightarrow> v) = PInt H"
    and counts: "data ''numXTiles'' = Some (PInt Nx)" "data ''numYTiles'' = Some (PInt Ny)"
  shows "(\<forall>tx ty.
            getAttr (tile_session get_camera_to_render self host data tx ty)
                ''defaultArnoldRenderOptions.regionMinX'' = PInt ((W div Nx) * (tx - 1))
          \<and> getAttr (tile_session get_camera_to_render self host data tx ty)
                ''defaultArnoldRenderOptions.regionMaxX''
              = PInt ((W div Nx) * tx - 1 + (if tx = Nx then W mod Nx else 0))
          \<and> getAttr (tile_session get_camera_to_render self host data tx ty)
                ''defaultArnoldRenderOptions.regionMinY'' = PInt ((H div Ny) * (ty - 1))
          \<and> getAttr (tile_session get_camera_to_render self host data tx ty)
                ''defaultArnoldRenderOptions.regionMaxY''
              = PInt ((H div Ny) * ty - 1 + (if ty = Ny then H mod Ny else 0)))
       \<and> (\<forall>x y. 0 \<le> x \<and> x < W \<and> 0 \<le> y \<and> y < H \<longrightarrow>
            (\<exists>!t. t \<in> {1..Nx} \<times> {1..Ny} \<and>
                  in_region (tile_session get_camera_to_render self host data (fst t) (snd t))
                    (x, y)))
       \<and> (\<forall>tx ty x y. tx \<in> {1..Nx} \<and> ty \<in> {1..Ny} \<and>
              in_region (tile_session get_camera_to_render self host data tx ty) (x, y) \<longrightarrow>
            0 \<le> x \<and> x < W \<and> 0 \<le> y \<and> y < H
            \<and> ((W div Nx) * Nx \<le> x \<longrightarrow> tx = Nx)
            \<and> ((H div Ny) * Ny \<le> y \<longrightarrow> ty = Ny))"
proof -
  have nz: "Nx \<noteq> 0" "Ny \<noteq> 0" using size by auto
  note reg = tile_session_region[where get_camera_to_render = get_camera_to_render,
      OF frame cam width height counts nz]
  note inr = in_region_tile_session[where get_camera_to_render = get_camera_to_render,
      OF frame cam width height counts nz]
  have borders: "\<forall>tx ty.
            getAttr (tile_session get_camera_to_render self host data tx ty)
                ''defaultArnoldRenderOptions.regionMinX'' = PInt ((W div Nx) * (tx - 1))
          \<and> getAttr (tile_session get_camera_to_render self host data tx ty)
                ''defaultArnoldRenderOptions.regionMaxX''
              = PInt ((W div Nx) * tx - 1 + (if tx = Nx then W mod Nx else 0))
          \<and> getAttr (tile_session get_camera_to_render self host data tx ty)
                ''defaultArnoldRenderOptions.regionMinY'' = PInt ((H div Ny) * (ty - 1))
          \<and> getAttr (tile_session get_camera_to_render self host data tx ty)
                ''defaultArnoldRenderOptions.regionMaxY''
              = PInt ((H div Ny) * ty - 1 + (if ty = Ny then H mod Ny else 0))"
  proof (intro allI)
    fix tx ty
    from reg[of tx ty] show "getAttr (tile_session get_camera_to_render self host data tx ty)
                ''defaultArnoldRenderOptions.regionMinX'' = PInt ((W div Nx) * (tx - 1))
          \<and> getAttr (tile_session get_camera_to_render self host data tx ty)
                ''defaultArnoldRenderOptions.regionMaxX''
              = PInt ((W div Nx) * tx - 1 + (if tx = Nx then W mod Nx else 0))
          \<and> getAttr (tile_session get_camera_to_render self host data tx ty)
                ''defaultArnoldRenderOptions.regionMinY'' = PInt ((H div Ny) * (ty - 1))
          \<and> getAttr (tile_session get_camera_to_render self host data tx ty)
                ''defaultArnoldRenderOptions.regionMaxY''
              = PInt ((H div Ny) * ty - 1 + (if ty = Ny then H mod Ny else 0))"
      by (simp add: axis_lo_def axis_hi_def)
  qed
  from image_tile_partition[OF size] borders show ?thesis
    unfolding inr by blast
qed

theorem start_render_tiles_partition_witness:
  "(0::int) \<le> 1920 \<and> (0::int) \<le> 1080 \<and> (1::int) \<le> 2
   \<and> getAttr (tile_session example_camera example_handler example_host
         [''frame'' \<mapsto> PInt 1, ''numXTiles'' \<mapsto> PInt 2, ''numYTiles'' \<mapsto> PInt 2] 2 1)
        ''defaultArnoldRenderOptions.regionMinX'' = PInt 960
   \<and> getAttr (tile_session example_camera example_handler example_host
         [''frame'' \<mapsto> PInt 1, ''numXTiles'' \<mapsto> PInt 2, ''numYTiles'' \<mapsto> PInt 2] 2 1)
        ''defaultArnoldRenderOptions.regionMaxX'' = PInt 1919
   \<and> getAttr (tile_session example_camera example_handler example_host
         [''frame'' \<mapsto> PInt 1, ''numXTiles'' \<mapsto> PInt 2, ''numYTiles'' \<mapsto> PInt 2] 2 1)
        ''defaultArnoldRenderOptions.regionMinY'' = PInt 0
   \<and> getAttr (tile_session example_camera example_handler example_host
         [''frame'' \<mapsto> PInt 1, ''numXTiles'' \<mapsto> PInt 2, ''numYTiles'' \<mapsto> PInt 2] 2 1)
        ''defaultArnoldRenderOptions.regionMaxY'' = PInt 539
   \<and> (\<exists>!t. t \<in> {1..2} \<times> {1..2} \<and>
          in_region (tile_session example_camera example_handler example_host
            [''frame'' \<mapsto> PInt 1, ''numXTiles'' \<mapsto> PInt 2, ''numYTiles'' \<mapsto> PInt 2]
            (fst t) (snd t)) (1000, 300))"
proof -
  let ?d = "[''frame'' \<mapsto> PInt 1, ''numXTiles'' \<mapsto> PInt 2, ''numYTiles'' \<mapsto> PInt 2]"
  have size: "(0::int) \<le> 1920" "(0::int) \<le> 1080" "(1::int) \<le> 2" by simp_all
  have f: "dict_get ?d ''frame'' \<noteq> PNone" by (simp add: dict_get_def)
  have c: "\<And>(s::handler) (d::pydict). \<exists>c. example_camera s example_host d = Inr c" by simp
  have w: "(case map_of (render_kwargs example_handler) ''width'' of
              None \<Rightarrow> getAttr example_host ''defaultResolution.width'' | Some v \<Rightarrow> v) = PInt 1920"
    by (simp add: init_def getAttr_def)
  have h: "(case map_of (render_kwargs example_handler) ''height'' of
              None \<Rightarrow> getAttr example_host ''defaultResolution.height'' | Some v \<Rightarrow> v) = PInt 1080"
    by (simp add: init_def getAttr_def)
  have n: "?d ''numXTiles'' = Some (PInt 2)" "?d ''numYTiles'' = Some (PInt 2)" by simp_all
  note th = start_render_tiles_partition[where get_camera_to_render = example_camera
      and self = example_handler and host = example_host and data = ?d,
      OF size(1,2,3,3) f c w h n]
  from th have b: "\<forall>tx ty.
         getAttr (tile_session example_camera example_handler example_host ?d tx ty)
           ''defaultArnoldRenderOptions.regionMinX'' = PInt ((1920 div 2) * (tx - 1))
       \<and> getAttr (tile_session example_camera example_handler example_host ?d tx ty)
           ''defaultArnoldRenderOptions.regionMaxX''
           = PInt ((1920 div 2) * tx - 1 + (if tx = 2 then 1920 mod 2 else 0))
       \<and> getAttr (tile_session example_camera example_handler example_host ?d tx ty)
           ''defaultArnoldRenderOptions.regionMinY'' = PInt ((1080 div 2) * (ty - 1))
       \<and> getAttr (tile_session example_camera example_handler example_host ?d tx ty)
           ''defaultArnoldRenderOptions.regionMaxY''
           = PInt ((1080 div 2) * ty - 1 + (if ty = 2 then 1080 mod 2 else 0))"
    by (rule conjunct1)
  from th have u: "\<exists>!t. t \<in> {1..2} \<times> {1..2} \<and>
          in_region (tile_session example_camera example_handler example_host ?d
            (fst t) (snd t)) (1000, 300)"
    by simp
  from b[rule_format, of 2 1] u show ?thesis by simp
qed

section \<open>Failures of \<^verbatim>\<open>start_render\<close>\<close>

text \<open>
  C2. When the key \<^verbatim>\<open>frame\<close> is absent from the data or maps to \<^verbatim>\<open>None\<close>,
  \<^verbatim>\<open>start_render\<close> raises \<^verbatim>\<open>RuntimeError\<close> with its message about the missing frame
  number, and neither the handler nor the session has changed: no attribute was set and
  the renderer was not called.
\<close>

theorem start_render_without_frame:
  assumes "data ''frame'' = None \<or> data ''frame'' = Some PNone"
  shows "start_render get_camera_to_render self host data =
           (Raised (RuntimeError ''MayaClient: start_render called without a frame number.''),
            self, host)"
  using assms by (auto simp: start_render_def dict_get_def)

theorem start_render_without_frame_witness:
  "start_render example_camera example_handler example_host [''numXTiles'' \<mapsto> PInt 2] =
     (Raised (RuntimeError ''MayaClient: start_render called without a frame number.''),
      example_handler, example_host)
   \<and> start_render example_camera example_handler example_host [''frame'' \<mapsto> PNone] =
     (Raised (RuntimeError ''MayaClient: start_render called without a frame number.''),
      example_handler, example_host)"
proof
  show "start_render example_camera example_handler example_host [''numXTiles'' \<mapsto> PInt 2] =
     (Raised (RuntimeError ''MayaClient: start_render called without a frame number.''),
      example_handler, example_host)"
    by (rule start_render_without_frame) simp
  show "start_render example_camera example_handler example_host [''frame'' \<mapsto> PNone] =
     (Raised (RuntimeError ''MayaClient: start_render called without a frame number.''),
      example_handler, example_host)"
    by (rule start_render_without_frame) simp
qed

text \<open>
  C3. When the data holds \<^verbatim>\<open>numXTiles\<close> and \<^verbatim>\<open>numYTiles\<close>, both not \<^verbatim>\<open>None\<close>, and one of
  \<^verbatim>\<open>numXTiles\<close>, \<^verbatim>\<open>numYTiles\<close>, \<^verbatim>\<open>tileNumX\<close>, \<^verbatim>\<open>tileNumY\<close> is not an \<^verbatim>\<open>int\<close>, then
  \<^verbatim>\<open>start_render\<close> raises a \<^verbatim>\<open>RuntimeError\<close>, and at that point the attributes of the
  session are the ones it started with and no call of \<^verbatim>\<open>setAttr\<close> has been made.
\<close>

theorem start_render_non_integer_tiles:
  assumes "data ''numXTiles'' = Some nx" "nx \<noteq> PNone"
    and "data ''numYTiles'' = Some ny" "ny \<noteq> PNone"
    and "\<not> (isinstance_int nx \<and> isinstance_int ny
           \<and> isinstance_int (dict_get data ''tileNumX'')
           \<and> isinstance_int (dict_get data ''tileNumY''))"
  shows "\<exists>msg self' host'.
           start_render get_camera_to_render self host data
             = (Raised (RuntimeError msg), self', host')
           \<and> attrs host' = attrs host \<and> calls host' = calls host"
proof (cases "dict_get data ''frame'' = PNone")
  case True
  then show ?thesis by (simp add: start_render_def)
next
  case frame: False
  define self1 where
    "self1 = self\<lparr>render_kwargs := dict_set ''seq'' (dict_get data ''frame'') (render_kwargs self)\<rparr>"
  show ?thesis
  proof (cases "get_camera_to_render self1 host data")
    case (Inl msg)
    from start_render_camera_fails[where get_camera_to_render = get_camera_to_render and self = self,
        OF frame Inl[unfolded self1_def]] show ?thesis by simp
  next
    case (Inr camera)
    obtain self3 host1 where dr: "default_resolution
           (self\<lparr>render_kwargs :=
                   dict_set ''camera'' camera
                     (dict_set ''seq'' (dict_get data ''frame'') (render_kwargs self))\<rparr>)
           host = (self3, host1)"
      by (cases "default_resolution
           (self\<lparr>render_kwargs :=
                   dict_set ''camera'' camera
                     (dict_set ''seq'' (dict_get data ''frame'') (render_kwargs self))\<rparr>)
           host")
    have nn: "dict_get data ''numXTiles'' \<noteq> PNone" "dict_get data ''numYTiles'' \<noteq> PNone"
      using assms by (simp_all add: dict_get_def)
    have ni: "\<not> (isinstance_int (dict_get data ''numXTiles'')
                \<and> isinstance_int (dict_get data ''numYTiles'')
                \<and> isinstance_int (dict_get data ''tileNumX'')
                \<and> isinstance_int (dict_get data ''tileNumY''))"
      using assms by (simp add: dict_get_def)
    from tile_setup_non_integer[OF nn ni, of self3 host1] obtain msg where
      ts: "tile_setup self3 host1 data = (Raised (RuntimeError msg), host1)" by blast
    have "start_render get_camera_to_render self host data = (Raised (RuntimeError msg), self3, host1)"
      using start_render_unfold[where get_camera_to_render = get_camera_to_render and self = self,
          OF frame Inr[unfolded self1_def] dr] ts by simp
    with default_resolution_host[OF dr] show ?thesis by simp
  qed
qed

theorem start_render_non_integer_tiles_witness:
  "\<exists>msg self' host'.
     start_render example_camera example_handler example_host
       [''frame'' \<mapsto> PInt 1, ''numXTiles'' \<mapsto> PStr ''2'', ''numYTiles'' \<mapsto> PInt 2,
        ''tileNumX'' \<mapsto> PInt 1, ''tileNumY'' \<mapsto> PInt 1]
       = (Raised (RuntimeError msg), self', host')
     \<and> attrs host' = attrs example_host \<and> calls host' = calls example_host"
  by (rule start_render_non_integer_tiles[where nx = "PStr ''2''" and ny = "PInt 2"]) simp_all

section \<open>Width and height default to the scene's resolution\<close>

text \<open>
  C4. In an invocation of \<^verbatim>\<open>start_render\<close> that has a frame number and finds its camera,
  when \<^verbatim>\<open>render_kwargs\<close> has no entry \<^verbatim>\<open>width\<close> (respectively \<^verbatim>\<open>height\<close>), the entry is
  set to the session's attribute \<^verbatim>\<open>defaultResolution.width\<close> (respectively
  \<^verbatim>\<open>defaultResolution.height\<close>) before the tile borders are computed and before the
  render: the tile branch and the render both run on a handler that has the entry, with
  no attribute written so far, and that handler is the one the invocation leaves behind.
\<close>

theorem start_render_defaults_resolution:
  assumes frame: "dict_get data ''frame'' \<noteq> PNone"
    and cam: "get_camera_to_render
           (self\<lparr>render_kwargs := dict_set ''seq'' (dict_get data ''frame'') (render_kwargs self)\<rparr>)
           host data = Inr camera"
    and k: "k = ''width'' \<or> k = ''height''"
    and absent: "\<not> dict_has k (render_kwargs self)"
  shows "\<exists>self3 host1.
           map_of (render_kwargs self3) k = Some (getAttr host (''defaultResolution.'' @ k))
         \<and> attrs host1 = attrs host \<and> calls host1 = calls host
         \<and> start_render get_camera_to_render self host data =
             (case tile_setup self3 host1 data of
                (Raised e, host2) \<Rightarrow> (Raised e, self3, host2)
              | (Returned, host2) \<Rightarrow>
                  (case render_frame self3 host2 (dict_get data ''frame'') of
                     (out, host3) \<Rightarrow> (out, self3, host3)))
         \<and> fst (snd (start_render get_camera_to_render self host data)) = self3"
proof -
  define self2 where "self2 = self\<lparr>render_kwargs :=
                   dict_set ''camera'' camera
                     (dict_set ''seq'' (dict_get data ''frame'') (render_kwargs self))\<rparr>"
  obtain self3 host1 where dr: "default_resolution self2 host = (self3, host1)"
    by (cases "default_resolution self2 host")
  have "\<not> dict_has k (render_kwargs self2)"
    using absent k by (auto simp: self2_def dict_has_dict_set)
  with default_resolution_kwargs[OF dr, of k] k
  have kv: "map_of (render_kwargs self3) k = Some (getAttr host (''defaultResolution.'' @ k))"
    by simp
  note u = start_render_unfold[where get_camera_to_render = get_camera_to_render
          and self = self, OF frame cam dr[unfolded self2_def]]
  have "fst (snd (start_render get_camera_to_render self host data)) = self3"
    unfolding u by (simp split: prod.splits outcome.splits)
  with kv default_resolution_host[OF dr] u show ?thesis by blast
qed

theorem start_render_defaults_resolution_witness:
  "map_of (render_kwargs (fst (snd (start_render example_camera example_handler example_host
       [''frame'' \<mapsto> PInt 1])))) ''width'' = Some (PInt 1920)
   \<and> map_of (render_kwargs (fst (snd (start_render example_camera example_handler example_host
       [''frame'' \<mapsto> PInt 1])))) ''height'' = Some (PInt 1080)"
proof -
  let ?d = "[''frame'' \<mapsto> PInt 1]"
  have f: "dict_get ?d ''frame'' \<noteq> PNone" by (simp add: dict_get_def)
  have c: "example_camera
             (example_handler\<lparr>render_kwargs :=
                dict_set ''seq'' (dict_get ?d ''frame'') (render_kwargs example_handler)\<rparr>)
             example_host ?d = Inr (PStr ''persp'')" by simp
  have a: "\<not> dict_has ''width'' (render_kwargs example_handler)"
    "\<not> dict_has ''height'' (render_kwargs example_handler)"
    by (simp_all add: dict_has_def init_def)
  from start_render_defaults_resolution[where get_camera_to_render = example_camera
      and self = example_handler and host = example_host and k = "''width''", OF f c _ a(1)]
  have w: "map_of (render_kwargs (fst (snd (start_render example_camera example_handler
             example_host ?d)))) ''width'' = Some (PInt 1920)"
    by (auto simp: getAttr_def)
  from start_render_defaults_resolution[where get_camera_to_render = example_camera
      and self = example_handler and host = example_host and k = "''height''", OF f c _ a(2)]
  have h: "map_of (render_kwargs (fst (snd (start_render example_camera example_handler
             example_host ?d)))) ''height'' = Some (PInt 1080)"
    by (auto simp: getAttr_def)
  from w h show ?thesis by simp
qed

section \<open>The submitter command\<close>

text \<open>
  C5. When the command reaches \<^verbatim>\<open>RenderSubmitterSettings.load()\<close> and the call raises
  \<^verbatim>\<open>PersistentDataclassError\<close>, the error is caught and its stack trace printed, the
  command returns normally, and everything else is what happens when \<^verbatim>\<open>load()\<close> returns
  no settings: the default UI settings are serialised into the command's result and the
  submitter dialog is shown with them.
\<close>

theorem doIt_load_failure:
  assumes raises: "load s = Load_raises PersistentDataclassError"
    and ui: "mayaState s = kInteractive \<or> mayaState s = kBaseUIMode"
    and win: "filter (\<lambda>w. objectName w = ''MayaWindow'') (topLevelWidgets s) = mainwin # rest"
    and saved: "sceneName s \<noteq> []"
  shows "doIt api s =
           (Cmd_returned,
            [Logger_info ''Opening Amazon Deadline Cloud Submitter'', File_query_sceneName,
             Settings_load, Traceback_print_exc PersistentDataclassError,
             SetResult (dumps api (default_ui_settings api)),
             Show_maya_render_submitter mainwin (default_ui_settings api)])
       \<and> doIt api (s\<lparr>load := Load_returns None\<rparr>) =
           (Cmd_returned,
            [Logger_info ''Opening Amazon Deadline Cloud Submitter'', File_query_sceneName,
             Settings_load,
             SetResult (dumps api (default_ui_settings api)),
             Show_maya_render_submitter mainwin (default_ui_settings api)])"
proof -
  have m: "mayaState s \<in> set [kInteractive, kBaseUIMode]" using ui by auto
  have "submitter_body api s mainwin =
           (Cmd_returned,
            [Logger_info ''Opening Amazon Deadline Cloud Submitter'', File_query_sceneName,
             Settings_load, Traceback_print_exc PersistentDataclassError,
             SetResult (dumps api (default_ui_settings api)),
             Show_maya_render_submitter mainwin (default_ui_settings api)])"
    using raises saved by (simp add: submitter_body_def Let_def)
  moreover have "submitter_body api (s\<lparr>load := Load_returns None\<rparr>) mainwin =
           (Cmd_returned,
            [Logger_info ''Opening Amazon Deadline Cloud Submitter'', File_query_sceneName,
             Settings_load,
             SetResult (dumps api (default_ui_settings api)),
             Show_maya_render_submitter mainwin (default_ui_settings api)])"
    using saved by (simp add: submitter_body_def Let_def)
  ultimately show ?thesis using m win by (simp add: doIt_def)
qed

theorem doIt_load_failure_witness:
  "doIt example_api (example_session ''scene.ma'' (Load_raises PersistentDataclassError)) =
     (Cmd_returned,
      [Logger_info ''Opening Amazon Deadline Cloud Submitter'', File_query_sceneName,
       Settings_load, Traceback_print_exc PersistentDataclassError,
       SetResult ''{}'',
       Show_maya_render_submitter \<lparr>widget_id = 0, objectName = ''MayaWindow''\<rparr> 0])"
  using doIt_load_failure[of "example_session ''scene.ma'' (Load_raises PersistentDataclassError)"
      "\<lparr>widget_id = 0, objectName = ''MayaWindow''\<rparr>" "[]" example_api]
  by simp

text \<open>
  C6. In UI mode, with the main window among the top-level widgets, a scene without a
  file name makes the command show the modal dialog and return normally: the settings
  are not loaded, no result is set and the submitter dialog is not opened.
\<close>

theorem doIt_unsaved_scene:
  assumes ui: "mayaState s = kInteractive \<or> mayaState s = kBaseUIMode"
    and win: "filter (\<lambda>w. objectName w = ''MayaWindow'') (topLevelWidgets s) = mainwin # rest"
    and unsaved: "sceneName s = []"
  shows "doIt api s =
           (Cmd_returned,
            [Logger_info ''Opening Amazon Deadline Cloud Submitter'', File_query_sceneName,
             ConfirmDialog ''Deadline Cloud Submitter''
               ''The Maya Scene is not saved to disk. Please save it before opening the submitter dialog.''
               ''OK'' ''OK''])
       \<and> Settings_load \<notin> set (snd (doIt api s))
       \<and> (\<forall>r. SetResult r \<notin> set (snd (doIt api s)))
       \<and> (\<forall>w u. Show_maya_render_submitter w u \<notin> set (snd (doIt api s)))"
proof -
  have m: "mayaState s \<in> set [kInteractive, kBaseUIMode]" using ui by auto
  have "doIt api s =
           (Cmd_returned,
            [Logger_info ''Opening Amazon Deadline Cloud Submitter'', File_query_sceneName,
             ConfirmDialog ''Deadline Cloud Submitter''
               ''The Maya Scene is not saved to disk. Please save it before opening the submitter dialog.''
               ''OK'' ''OK''])"
    using m win unsaved by (simp add: doIt_def submitter_body_def Let_def)
  then show ?thesis by simp
qed

theorem doIt_unsaved_scene_witness:
  "doIt example_api (example_session [] (Load_returns (Some 7))) =
     (Cmd_returned,
      [Logger_info ''Opening Amazon Deadline Cloud Submitter'', File_query_sceneName,
       ConfirmDialog ''Deadline Cloud Submitter''
         ''The Maya Scene is not saved to disk. Please save it before opening the submitter dialog.''
         ''OK'' ''OK''])"
  using doIt_unsaved_scene[of "example_session [] (Load_returns (Some 7))"
      "\<lparr>widget_id = 0, objectName = ''MayaWindow''\<rparr>" "[]" example_api]
  by simp

section \<open>The lifetime of \<^verbatim>\<open>render_kwargs\<close>\<close>

text \<open>
  C7, as the specification words it, says that no key written during one call of
  \<^verbatim>\<open>start_render\<close> remains in \<^verbatim>\<open>render_kwargs\<close> and affects a later call on the same
  handler. The mapping is an attribute of the handler instance and is never reset, so
  this fails: after a first call on a fresh handler the defaulted width 1920 is in the
  mapping, and a second call renders with 1920 although the scene's width has become 640
  by then, where a fresh handler renders with 640.
\<close>

theorem render_kwargs_transient_counterexample:
  "map_of (render_kwargs example_handler) ''width'' = None
   \<and> fst example_first = Returned
   \<and> map_of (render_kwargs (fst (snd example_first))) ''width'' = Some (PInt 1920)
   \<and> getAttr example_later_host ''defaultResolution.width'' = PInt 640
   \<and> last (calls (snd (snd (start_render example_camera (fst (snd example_first))
                 example_later_host [''frame'' \<mapsto> PInt 2]))))
       = ArnoldRender [(''batch'', PBool True), (''seq'', PInt 2), (''camera'', PStr ''persp''),
                       (''width'', PInt 1920), (''height'', PInt 1080)]
   \<and> last (calls (snd (snd (start_render example_camera example_handler
                 example_later_host [''frame'' \<mapsto> PInt 2]))))
       = ArnoldRender [(''batch'', PBool True), (''seq'', PInt 2), (''camera'', PStr ''persp''),
                       (''width'', PInt 640), (''height'', PInt 1080)]"
  by (simp add: eval_defs)

text \<open>
  C7, amended. \<^verbatim>\<open>render_kwargs\<close> outlives the call: after a call of \<^verbatim>\<open>start_render\<close>
  that returns, the mapping has a \<^verbatim>\<open>width\<close> and a \<^verbatim>\<open>height\<close>, and a later call of
  \<^verbatim>\<open>start_render\<close> on the same handler, whatever the session and the data are by then,
  keeps both entries as they are and, when it returns, has rendered with them.
\<close>

theorem start_render_keeps_resolution:
  assumes first: "start_render get_camera_to_render self host data = (Returned, self1, host1)"
    and second: "start_render get_camera_to_render self1 host2 data2 = (out2, self2, host3)"
    and k: "k = ''width'' \<or> k = ''height''"
  shows "\<exists>v. map_of (render_kwargs self1) k = Some v
           \<and> map_of (render_kwargs self2) k = Some v
           \<and> (out2 = Returned \<longrightarrow>
                (\<exists>kw. last (calls host3) = ArnoldRender kw \<and> map_of kw k = Some v))"
proof -
  from start_render_returned_resolution[OF first k] obtain v where
    v: "map_of (render_kwargs self1) k = Some v" by blast
  have k': "k \<noteq> ''seq''" "k \<noteq> ''camera''" using k by auto
  have v2: "map_of (render_kwargs self2) k = Some v"
    by (rule start_render_keeps_entries[OF second v k'])
  have "\<exists>kw. last (calls host3) = ArnoldRender kw \<and> map_of kw k = Some v" if "out2 = Returned"
  proof -
    from second that obtain host2' where
      "render_frame self2 host2' (dict_get data2 ''frame'') = (Returned, host3)"
      by (auto elim: start_render_returned)
    from render_frame_returned[OF this] v2 show ?thesis by auto
  qed
  with v v2 show ?thesis by blast
qed

theorem start_render_keeps_resolution_witness:
  "fst example_first = Returned
   \<and> (\<exists>v. map_of (render_kwargs (fst (snd example_first))) ''width'' = Some v
          \<and> map_of (render_kwargs (fst (snd (start_render example_camera (fst (snd example_first))
                 example_later_host [''frame'' \<mapsto> PInt 2])))) ''width'' = Some v)"
proof -
  obtain out self1 host1 where e: "example_first = (out, self1, host1)"
    by (cases example_first)
  have r: "fst example_first = Returned" by (simp add: eval_defs)
  with e have first: "example_first = (Returned, self1, host1)" by simp
  obtain out2 self2 host3 where
    second: "start_render example_camera self1 example_later_host [''frame'' \<mapsto> PInt 2]
               = (out2, self2, host3)"
    by (cases "start_render example_camera self1 example_later_host [''frame'' \<mapsto> PInt 2]")
  from start_render_keeps_resolution[OF first second, of "''width''"]
  obtain v where "map_of (render_kwargs self1) ''width'' = Some v"
    "map_of (render_kwargs self2) ''width'' = Some v" by auto
  with first second r show ?thesis by simp
qed

section \<open>Attributes written by the handler\<close>

text \<open>
  C8. \<^verbatim>\<open>set_error_on_arnold_license_fail\<close> sets the attribute
  \<^verbatim>\<open>defaultArnoldRenderOptions.abortOnLicenseFail\<close> to the value of the key
  \<^verbatim>\<open>error_on_arnold_license_fail\<close>, and to \<^verbatim>\<open>True\<close> when the key is absent, with one
  call of \<^verbatim>\<open>setAttr\<close>.
\<close>

theorem set_error_on_arnold_license_fail_value:
  "getAttr (set_error_on_arnold_license_fail host data)
       ''defaultArnoldRenderOptions.abortOnLicenseFail''
     = (case data ''error_on_arnold_license_fail'' of None \<Rightarrow> PBool True | Some v \<Rightarrow> v)
   \<and> calls (set_error_on_arnold_license_fail host data)
     = calls host @
         [SetAttr ''defaultArnoldRenderOptions.abortOnLicenseFail''
            (case data ''error_on_arnold_license_fail'' of None \<Rightarrow> PBool True | Some v \<Rightarrow> v)]"
  by (simp add: set_error_on_arnold_license_fail_def dict_get_default_def setAttr_def getAttr_def
        Let_def)



text \<open>
  C10. An invocation of \<^verbatim>\<open>start_render\<close> that returns leaves the attribute
  \<^verbatim>\<open>defaultArnoldRenderOptions.log_verbosity\<close> at the maximum of its value before and 2:
  it is set to 2 when it was below 2 and is left as it was otherwise.
\<close>

theorem start_render_log_verbosity:
  assumes sr: "start_render get_camera_to_render self host data = (Returned, self', host')"
  shows "\<exists>n. as_int (getAttr host ''defaultArnoldRenderOptions.log_verbosity'') = Some n
           \<and> as_int (getAttr host' ''defaultArnoldRenderOptions.log_verbosity'') = Some (max n 2)
           \<and> getAttr host' ''defaultArnoldRenderOptions.log_verbosity''
               = (if n < 2 then PInt 2
                  else getAttr host ''defaultArnoldRenderOptions.log_verbosity'')"
proof -
  from sr obtain camera host1 host2 where
    dr: "default_resolution
       (self\<lparr>render_kwargs :=
               dict_set ''camera'' camera
                 (dict_set ''seq'' (dict_get data ''frame'') (render_kwargs self))\<rparr>)
       host = (self', host1)" and
    ts: "tile_setup self' host1 data = (Returned, host2)" and
    rf: "render_frame self' host2 (dict_get data ''frame'') = (Returned, host')"
    by (rule start_render_returned)
  have "attrs host2 ''defaultArnoldRenderOptions.log_verbosity''
          = attrs host1 ''defaultArnoldRenderOptions.log_verbosity''"
    by (rule tile_setup_attrs_other[OF ts]) simp
  also have "\<dots> = attrs host ''defaultArnoldRenderOptions.log_verbosity''"
    using default_resolution_host[OF dr] by simp
  finally have e: "attrs host2 ''defaultArnoldRenderOptions.log_verbosity''
          = attrs host ''defaultArnoldRenderOptions.log_verbosity''" .
  from render_frame_returned[OF rf] obtain n where
    "as_int (attrs host2 ''defaultArnoldRenderOptions.log_verbosity'') = Some n"
    "attrs host' ''defaultArnoldRenderOptions.log_verbosity''
               = (if n < 2 then PInt 2 else attrs host2 ''defaultArnoldRenderOptions.log_verbosity'')"
    by blast
  with e show ?thesis by (auto simp: getAttr_def max_def)
qed

theorem start_render_log_verbosity_witness:
  "fst (start_render example_camera example_handler example_host [''frame'' \<mapsto> PInt 1]) = Returned
   \<and> getAttr example_host ''defaultArnoldRenderOptions.log_verbosity'' = PInt 0
   \<and> getAttr (snd (snd (start_render example_camera example_handler example_host
          [''frame'' \<mapsto> PInt 1]))) ''defaultArnoldRenderOptions.log_verbosity'' = PInt 2"
proof -
  let ?d = "[''frame'' \<mapsto> PInt 1]"
  obtain out self' host' where
    e: "start_render example_camera example_handler example_host ?d = (out, self', host')"
    by (cases "start_render example_camera example_handler example_host ?d")
  have "fst (start_render example_camera example_handler example_host ?d) = Returned"
    by (simp add: eval_defs)
  with e have r: "start_render example_camera example_handler example_host ?d
          = (Returned, self', host')" by simp
  have "getAttr host' ''defaultArnoldRenderOptions.log_verbosity'' = PInt 2"
    using start_render_log_verbosity[OF r] by (auto simp: getAttr_def)
  with r show ?thesis by (simp add: getAttr_def)
qed

end
